theory Spec2Isabelle
  imports Main
begin

section \<open>Python values and failures\<close>

text \<open>
  The module \<^verbatim>\<open>rnaseek/miso.py\<close> is Python 2: \<^verbatim>\<open>map\<close> and \<^verbatim>\<open>zip\<close> build lists at
  once, so an exception raised while mapping aborts the whole call. Every exception
  the modelled functions can raise is a value of \<open>py_error\<close>; a function that can raise
  returns \<open>py_error + 'a\<close>.
\<close>

datatype py_error =
  IndexError | ValueError | KeyError | UnboundLocalError | AttributeError | OverflowError

text \<open>Python 2's eager \<^verbatim>\<open>map(f, xs)\<close> for an \<open>f\<close> that can raise: the first failure wins.\<close>

fun map_raising :: "('a \<Rightarrow> py_error + 'b) \<Rightarrow> 'a list \<Rightarrow> py_error + 'b list" where
  "map_raising f [] = Inr []"
| "map_raising f (x # xs) =
     (case f x of
        Inl e \<Rightarrow> Inl e
      | Inr y \<Rightarrow> (case map_raising f xs of Inl e \<Rightarrow> Inl e | Inr ys \<Rightarrow> Inr (y # ys)))"

text \<open>
  \<^verbatim>\<open>s.split(c)\<close> for a one-character separator: the pieces between the separators,
  empty pieces kept, never an empty list (\<^verbatim>\<open>''.split(':') == ['']\<close>).
\<close>

fun split_on :: "char \<Rightarrow> string \<Rightarrow> string list" where
  "split_on c [] = [[]]"
| "split_on c (x # xs) =
     (if x = c then [] # split_on c xs
      else (case split_on c xs of
              piece # pieces \<Rightarrow> (x # piece) # pieces
            | [] \<Rightarrow> [[x]]))"

text \<open>\<^verbatim>\<open>sep.join(xs)\<close>.\<close>

fun join :: "string \<Rightarrow> string list \<Rightarrow> string" where
  "join sep [] = []"
| "join sep [x] = x"
| "join sep (x # y # ys) = x @ sep @ join sep (y # ys)"

section \<open>Identifier parser\<close>

text \<open>
  \<^verbatim>\<open>miso_exon_to_coords\<close>, lines 125 to 146. \<^verbatim>\<open>exon[-1]\<close> raises on the empty string,
  \<^verbatim>\<open>coords[1]\<close> and \<^verbatim>\<open>coords[2]\<close> raise when the field has too few \<^verbatim>\<open>:\<close>-separated parts,
  and the unpacking \<^verbatim>\<open>start, stop = coords[1].split('-')\<close> raises a ValueError unless the
  split has exactly two pieces. The strand is the one-character string \<^verbatim>\<open>exon[-1]\<close>.
\<close>

definition miso_exon_to_coords :: "string \<Rightarrow> py_error + (string \<times> string \<times> string \<times> string)" where
  "miso_exon_to_coords exon =
     (if exon = [] then Inl IndexError
      else
        let strand = [last exon];
            coords = map (\<lambda>x. hd (split_on CHR ''|'' x)) (split_on CHR '':'' exon)
        in if length coords < 2 then Inl IndexError
           else if CHR ''-'' \<in> set (coords ! 1) then
             (case split_on CHR ''-'' (coords ! 1) of
                [start, stop] \<Rightarrow> Inr (coords ! 0, start, stop, strand)
              | _ \<Rightarrow> Inl ValueError)
           else if length coords < 3 then Inl IndexError
           else Inr (coords ! 0, coords ! 1, coords ! 2, strand))"

text \<open>\<^verbatim>\<open>miso_exon_to_gencode_exon\<close>, line 97: \<^verbatim>\<open>'exon:{}:{}-{}:{}'.format(*coords)\<close>.\<close>

definition miso_exon_to_gencode_exon :: "string \<Rightarrow> py_error + string" where
  "miso_exon_to_gencode_exon exon =
     (case miso_exon_to_coords exon of
        Inl e \<Rightarrow> Inl e
      | Inr (chrom, start, stop, strand) \<Rightarrow>
          Inr (''exon:'' @ chrom @ '':'' @ start @ ''-'' @ stop @ '':'' @ strand))"

text \<open>\<^verbatim>\<open>miso_id_to_exon_ids\<close>, line 122.\<close>

definition miso_id_to_exon_ids :: "string \<Rightarrow> py_error + string list" where
  "miso_id_to_exon_ids miso_id = map_raising miso_exon_to_gencode_exon (split_on CHR ''@'' miso_id)"

text \<open>
  The constructor, lines 52 to 61: the exon count of the declared splice type
  (\<^verbatim>\<open>None\<close> for any other type), and the coordinates of every exon field of an identifier.
\<close>

definition n_exons :: "string \<Rightarrow> nat option" where
  "n_exons splice_type =
     (if splice_type = ''SE'' then Some 3
      else if splice_type = ''MXE'' then Some 4
      else None)"

definition miso_id_to_coords :: "string \<Rightarrow> py_error + (string \<times> string \<times> string \<times> string) list" where
  "miso_id_to_coords miso_id = map_raising miso_exon_to_coords (split_on CHR ''@'' miso_id)"

section \<open>Isoform resolver\<close>

text \<open>
  \<^verbatim>\<open>splice_type_exons\<close>, lines 598 to 605. A Python tuple of exons is a list here; the
  result is \<^verbatim>\<open>(None, None)\<close> for a splice type that is neither \<^verbatim>\<open>'SE'\<close> nor \<^verbatim>\<open>'MXE'\<close>.
\<close>

definition splice_type_exons :: "string \<Rightarrow> 'a list \<Rightarrow> py_error + ('a list option \<times> 'a list option)" where
  "splice_type_exons splice_type exons =
     (if splice_type = ''SE'' then
        (if length exons < 3 then Inl IndexError
         else Inr (Some [exons ! 0, exons ! 2],
                   Some [exons ! 0, exons ! 1, exons ! 2]))
      else if splice_type = ''MXE'' then
        (if length exons < 4 then Inl IndexError
         else Inr (Some [exons ! 0, exons ! 1, exons ! 3],
                   Some [exons ! 0, exons ! 2, exons ! 3]))
      else Inr (None, None))"

text \<open>
  What \<^verbatim>\<open>splice_type_isoforms\<close> receives at each position is an iterable of
  transcripts; its docstring says a list of gffutils iterators, and the caller
  \<^verbatim>\<open>isoform_translations\<close> passes the generators returned by \<^verbatim>\<open>gffdb.parents\<close>. An
  iterable is either a collection (a list, tuple or set, which can be traversed again)
  or a one-shot iterator, here with the items it has not yielded yet. \<^verbatim>\<open>set(x)\<close>
  traverses \<open>x\<close> to its end: a collection is left as it was, an iterator is left
  exhausted, and a second \<^verbatim>\<open>set(x)\<close> on it is the empty set.
\<close>

datatype 'a iterable = Collection "'a list" | Iterator "'a list"

fun py_set :: "'a iterable \<Rightarrow> 'a set \<times> 'a iterable" where
  "py_set (Collection xs) = (set xs, Collection xs)"
| "py_set (Iterator xs) = (set xs, Iterator [])"

text \<open>\<^verbatim>\<open>set(transcripts[i])\<close> for an index in range: the set, and the list of iterables after it.\<close>

definition set_at :: "nat \<Rightarrow> 'a iterable list \<Rightarrow> 'a set \<times> 'a iterable list" where
  "set_at i transcripts =
     (case py_set (transcripts ! i) of (s, it) \<Rightarrow> (s, transcripts[i := it]))"

text \<open>
  \<^verbatim>\<open>splice_type_isoforms\<close>, lines 425 to 436, with the operands of each \<^verbatim>\<open>&\<close> evaluated
  left to right. The result is the pair returned together with the iterables as the
  call leaves them. The positions are taken to hold distinct objects.
\<close>

definition splice_type_isoforms ::
  "string \<Rightarrow> 'a iterable list \<Rightarrow> py_error + (('a set option \<times> 'a set option) \<times> 'a iterable list)" where
  "splice_type_isoforms splice_type transcripts =
     (if splice_type = ''SE'' then
        (if length transcripts < 3 then Inl IndexError
         else
           let (a, ts1) = set_at 0 transcripts;
               (b, ts2) = set_at 2 ts1;
               isoform1s = a \<inter> b;
               (c, ts3) = set_at 1 ts2;
               isoform2s = c \<inter> isoform1s
           in Inr ((Some isoform1s, Some isoform2s), ts3))
      else if splice_type = ''MXE'' then
        (if length transcripts < 4 then Inl IndexError
         else
           let (a, ts1) = set_at 0 transcripts;
               (b, ts2) = set_at 2 ts1;
               (c, ts3) = set_at 3 ts2;
               isoform1s = a \<inter> b \<inter> c;
               (d, ts4) = set_at 0 ts3;
               (e, ts5) = set_at 1 ts4;
               (f, ts6) = set_at 3 ts5;
               isoform2s = d \<inter> e \<inter> f
           in Inr ((Some isoform1s, Some isoform2s), ts6))
      else Inr ((None, None), transcripts))"

text \<open>
  \<^verbatim>\<open>isoform_translations\<close>, lines 517 to 528: the transcripts of the two isoforms with
  the transcripts common to both removed. \<^verbatim>\<open>None.intersection\<close> raises an
  AttributeError, which is what an unsupported splice type leads to.
\<close>

definition transcripts_per_isoform :: "string \<Rightarrow> 'a iterable list \<Rightarrow> py_error + ('a set \<times> 'a set)" where
  "transcripts_per_isoform splice_type transcripts =
     (case splice_type_isoforms splice_type transcripts of
        Inl e \<Rightarrow> Inl e
      | Inr ((Some t1, Some t2), _) \<Rightarrow>
          let intersect = t1 \<inter> t2;
              isoform1s = t1 - intersect;
              isoform2s = t2 - intersect
          in Inr (isoform1s, isoform2s)
      | Inr _ \<Rightarrow> Inl AttributeError)"

section \<open>Intron interval builder\<close>

text \<open>
  The builtin \<^verbatim>\<open>int\<close> on a string, as far as the coordinates of an identifier need it:
  surrounding whitespace is dropped, one sign is allowed, and the rest must be a
  non-empty run of decimal digits; anything else raises a ValueError.
\<close>

definition is_space :: "char \<Rightarrow> bool" where
  "is_space c = (c \<in> set [CHR '' '', CHR 0x09, CHR 0x0A, CHR 0x0B, CHR 0x0C, CHR 0x0D])"

definition strip :: "string \<Rightarrow> string" where
  "strip s = rev (dropWhile is_space (rev (dropWhile is_space s)))"

definition digit_val :: "char \<Rightarrow> nat option" where
  "digit_val c = map_of (zip ''0123456789'' [0, 1, 2, 3, 4, 5, 6, 7, 8, 9]) c"

fun digits_val :: "nat \<Rightarrow> string \<Rightarrow> nat option" where
  "digits_val acc [] = Some acc"
| "digits_val acc (c # cs) =
     (case digit_val c of None \<Rightarrow> None | Some d \<Rightarrow> digits_val (10 * acc + d) cs)"

definition py_int :: "string \<Rightarrow> py_error + int" where
  "py_int s =
     (let t = strip s;
          negative = (t \<noteq> [] \<and> hd t = CHR ''-'');
          ds = (if t \<noteq> [] \<and> (hd t = CHR ''-'' \<or> hd t = CHR ''+'') then tl t else t)
      in if ds = [] then Inl ValueError
         else (case digits_val 0 ds of
                 None \<Rightarrow> Inl ValueError
               | Some n \<Rightarrow> Inr (if negative then - int n else int n)))"

text \<open>
  The local variables \<^verbatim>\<open>start\<close> and \<^verbatim>\<open>stop\<close> of \<^verbatim>\<open>coords_to_intron_bedtool\<close> live
  across the iterations of its loop: unbound before the first assignment, a string
  after one of the two strand branches, an integer after the conversion. A strand
  that is neither \<^verbatim>\<open>'+'\<close> nor \<^verbatim>\<open>'-'\<close> assigns nothing, so the conversion reads what
  the previous event left.
\<close>

datatype pyval = Unbound | StrV string | IntV int

fun int_of_pyval :: "pyval \<Rightarrow> py_error + int" where
  "int_of_pyval Unbound = Inl UnboundLocalError"
| "int_of_pyval (StrV s) = py_int s"
| "int_of_pyval (IntV i) = Inr i"

text \<open>\<^verbatim>\<open>xs[i:j]\<close>: negative bounds count from the end, and both are clamped to the list.\<close>

definition py_slice :: "'a list \<Rightarrow> int \<Rightarrow> int \<Rightarrow> 'a list" where
  "py_slice xs i j =
     (let n = int (length xs);
          lo = (if i < 0 then max 0 (i + n) else min i n);
          hi = (if j < 0 then max 0 (j + n) else min j n)
      in take (nat (hi - lo)) (drop (nat lo) xs))"

text \<open>
  \<^verbatim>\<open>pybedtools.Interval(chrom, start, stop, strand=strand, name=miso_id, score='1000')\<close>.
  The library keeps the two bounds as unsigned 32-bit numbers: its constructor raises
  an OverflowError for a bound below 0 or above 4294967295.
\<close>

definition chrpos_ok :: "int \<Rightarrow> bool" where
  "chrpos_ok x = (0 \<le> x \<and> x \<le> 4294967295)"

record interval =
  iv_chrom :: string
  iv_start :: int
  iv_stop :: int
  iv_strand :: string
  iv_name :: string
  iv_score :: string

type_synonym exon_coords = "string \<times> string \<times> string \<times> string"

text \<open>
  Lines 211 to 226 of \<^verbatim>\<open>coords_to_intron_bedtool\<close>: the two bounds of one event as they
  are computed, \<^verbatim>\<open>int(start) - 1\<close> and \<^verbatim>\<open>int(stop)\<close>, before line 228 compares them. The
  first argument is the intron number, the second the values of \<^verbatim>\<open>start\<close> and \<^verbatim>\<open>stop\<close>
  on entry.
\<close>

definition intron_bounds :: "int \<Rightarrow> pyval \<times> pyval \<Rightarrow> exon_coords list \<Rightarrow> py_error + (int \<times> int)" where
  "intron_bounds intron_number vars exons =
     (case py_slice exons (intron_number - 1) (intron_number + 1) of
        [(chrom1, start1, stop1, strand1), (chrom2, start2, stop2, strand2)] \<Rightarrow>
          let strand = strand1;
              (start, stop) =
                (if strand = ''+'' then (StrV stop1, StrV start2)
                 else if strand = ''-'' then (StrV stop2, StrV start1)
                 else vars)
          in (case int_of_pyval start of
                Inl e \<Rightarrow> Inl e
              | Inr start_int \<Rightarrow>
                  (case int_of_pyval stop of
                     Inl e \<Rightarrow> Inl e
                   | Inr stop_int \<Rightarrow> Inr (start_int - 1, stop_int)))
      | _ \<Rightarrow> Inl ValueError)"

text \<open>
  One iteration of the loop of \<^verbatim>\<open>coords_to_intron_bedtool\<close>, lines 211 to 236: from the
  values of \<^verbatim>\<open>start\<close> and \<^verbatim>\<open>stop\<close> on entry, the interval appended and their values on
  exit. The unpacking of the two-element slice raises a ValueError when the slice is
  shorter, and the constructor of the interval an OverflowError when a bound does not
  fit.
\<close>

definition intron_interval ::
  "int \<Rightarrow> pyval \<times> pyval \<Rightarrow> string \<Rightarrow> exon_coords list \<Rightarrow> py_error + (interval \<times> pyval \<times> pyval)" where
  "intron_interval intron_number vars miso_id exons =
     (case py_slice exons (intron_number - 1) (intron_number + 1) of
        [(chrom1, start1, stop1, strand1), (chrom2, start2, stop2, strand2)] \<Rightarrow>
          let chrom = chrom1;
              strand = strand1;
              (start, stop) =
                (if strand = ''+'' then (StrV stop1, StrV start2)
                 else if strand = ''-'' then (StrV stop2, StrV start1)
                 else vars)
          in (case int_of_pyval start of
                Inl e \<Rightarrow> Inl e
              | Inr start_int \<Rightarrow>
                  (case int_of_pyval stop of
                     Inl e \<Rightarrow> Inl e
                   | Inr stop_int \<Rightarrow>
                       let start0 = start_int - 1;
                           (start', stop') =
                             (if start0 > stop_int then (stop_int, start0) else (start0, stop_int))
                       in if chrpos_ok start' \<and> chrpos_ok stop'
                          then Inr (\<lparr>iv_chrom = chrom, iv_start = start', iv_stop = stop',
                                     iv_strand = strand, iv_name = miso_id,
                                     iv_score = ''1000''\<rparr>,
                                    IntV start', IntV stop')
                          else Inl OverflowError))
      | _ \<Rightarrow> Inl ValueError)"

fun intron_intervals ::
  "int \<Rightarrow> pyval \<times> pyval \<Rightarrow> (string \<times> exon_coords list) list \<Rightarrow> py_error + interval list" where
  "intron_intervals intron_number vars [] = Inr []"
| "intron_intervals intron_number vars ((miso_id, exons) # rest) =
     (case intron_interval intron_number vars miso_id exons of
        Inl e \<Rightarrow> Inl e
      | Inr (iv, vars') \<Rightarrow>
          (case intron_intervals intron_number vars' rest of
             Inl e \<Rightarrow> Inl e
           | Inr ivs \<Rightarrow> Inr (iv # ivs)))"

text \<open>
  \<^verbatim>\<open>coords_to_intron_bedtool\<close>, lines 209 to 238, with \<^verbatim>\<open>self.miso_ids\<close> as first
  argument. \<^verbatim>\<open>zip\<close> stops at the shorter of the two lists.
\<close>

definition coords_to_intron_bedtool ::
  "string list \<Rightarrow> exon_coords list list \<Rightarrow> int \<Rightarrow> py_error + interval list" where
  "coords_to_intron_bedtool miso_ids coords intron_number =
     intron_intervals intron_number (Unbound, Unbound) (zip miso_ids coords)"

section \<open>Annotation lookup and mapping tables\<close>

text \<open>
  The annotation store is outside the module. A feature is its \<^verbatim>\<open>attributes\<close>, a mapping
  from a key to a list of strings. \<^verbatim>\<open>db[e]\<close> either finds a feature or raises
  \<^verbatim>\<open>FeatureNotFoundError\<close> (\<open>None\<close> here); \<^verbatim>\<open>db.features_of_type\<close> answers the overlap
  query for a feature type, a strand and the limit \<^verbatim>\<open>(chrom, start, stop)\<close>.
\<close>

type_synonym feature = "(string \<times> string list) list"

record feature_db =
  db_getitem :: "string \<Rightarrow> feature option"
  db_features_of_type :: "string \<Rightarrow> string \<Rightarrow> string \<times> int \<times> int \<Rightarrow> feature list"

text \<open>The six sets gathered for one event, lines 285 to 290.\<close>

record gene_sets =
  gencode :: "string set"
  ensembl :: "string set"
  gene_name :: "string set"
  gene_type :: "string set"
  gencode_transcript :: "string set"
  ensembl_transcript :: "string set"

definition no_genes :: gene_sets where
  "no_genes = \<lparr>gencode = {}, ensembl = {}, gene_name = {}, gene_type = {},
                gencode_transcript = {}, ensembl_transcript = {}\<rparr>"

text \<open>\<^verbatim>\<open>x.split('.')[0]\<close>: the identifier without its version.\<close>

definition strip_version :: "string \<Rightarrow> string" where
  "strip_version x = hd (split_on CHR ''.'' x)"

text \<open>
  The six updates from one feature, lines 294 to 303 and 320 to 334, in their order.
  A missing attribute raises a KeyError after the updates before it have been done:
  the result is the sets as they are then, with the error if there is one.
\<close>

definition add_feature :: "feature \<Rightarrow> gene_sets \<Rightarrow> gene_sets \<times> py_error option" where
  "add_feature f acc =
     (case map_of f ''gene_id'' of
        None \<Rightarrow> (acc, Some KeyError)
      | Some gene_ids \<Rightarrow>
          let acc1 = acc\<lparr>gencode := gencode acc \<union> set gene_ids,
                          ensembl := ensembl acc \<union> set (map strip_version gene_ids)\<rparr>
          in (case map_of f ''gene_name'' of
                None \<Rightarrow> (acc1, Some KeyError)
              | Some names \<Rightarrow>
                  let acc2 = acc1\<lparr>gene_name := gene_name acc1 \<union> set names\<rparr>
                  in (case map_of f ''gene_type'' of
                        None \<Rightarrow> (acc2, Some KeyError)
                      | Some types \<Rightarrow>
                          let acc3 = acc2\<lparr>gene_type := gene_type acc2 \<union> set types\<rparr>
                          in (case map_of f ''transcript_id'' of
                                None \<Rightarrow> (acc3, Some KeyError)
                              | Some transcript_ids \<Rightarrow>
                                  (acc3\<lparr>gencode_transcript :=
                                           gencode_transcript acc3 \<union> set transcript_ids,
                                         ensembl_transcript :=
                                           ensembl_transcript acc3 \<union>
                                           set (map strip_version transcript_ids)\<rparr>,
                                   None)))))"

text \<open>
  The loop over the overlapping transcripts, lines 319 to 334, inside the bare
  \<^verbatim>\<open>except\<close> of line 335: the first error ends the loop and is swallowed, and the
  updates done until then stay.
\<close>

fun add_transcripts :: "feature list \<Rightarrow> gene_sets \<Rightarrow> gene_sets" where
  "add_transcripts [] acc = acc"
| "add_transcripts (t # ts) acc =
     (case add_feature t acc of
        (acc', None) \<Rightarrow> add_transcripts ts acc'
      | (acc', Some _) \<Rightarrow> acc')"

text \<open>
  The body of the loop over the exon identifiers of one event, lines 292 to 336. An
  error while reading the attributes of a found exon is not a
  \<^verbatim>\<open>FeatureNotFoundError\<close> and leaves the function; every error of the fallback is
  swallowed.
\<close>

definition add_exon :: "feature_db \<Rightarrow> string \<Rightarrow> gene_sets \<Rightarrow> py_error + gene_sets" where
  "add_exon db e acc =
     (case db_getitem db e of
        Some exon \<Rightarrow>
          (case add_feature exon acc of
             (acc', None) \<Rightarrow> Inr acc'
           | (_, Some err) \<Rightarrow> Inl err)
      | None \<Rightarrow>
          (case split_on CHR '':'' e of
             [prefix, chrom, startstop, strand] \<Rightarrow>
               (case split_on CHR ''-'' startstop of
                  [start, stop] \<Rightarrow>
                    (case py_int start of
                       Inl _ \<Rightarrow> Inr acc
                     | Inr start_int \<Rightarrow>
                         (case py_int stop of
                            Inl _ \<Rightarrow> Inr acc
                          | Inr stop_int \<Rightarrow>
                              let transcripts =
                                    db_features_of_type db ''transcript'' strand
                                      (chrom, start_int, stop_int)
                              in Inr (add_transcripts transcripts acc)))
                | _ \<Rightarrow> Inr acc)
           | _ \<Rightarrow> Inr acc))"

fun add_exons :: "feature_db \<Rightarrow> string list \<Rightarrow> gene_sets \<Rightarrow> py_error + gene_sets" where
  "add_exons db [] acc = Inr acc"
| "add_exons db (e # es) acc =
     (case add_exon db e acc of
        Inl err \<Rightarrow> Inl err
      | Inr acc' \<Rightarrow> add_exons db es acc')"

text \<open>
  A value of an event table: the comma-joined members of a set (the order of the
  join is the set's iteration order, which the source leaves to the interpreter, so
  the set stands for the joined text), or \<^verbatim>\<open>np.nan\<close>.
\<close>

datatype cell = Joined "string set" | NaN

text \<open>
  The nine dictionaries of lines 261 to 270. The three inverse ones are
  \<^verbatim>\<open>defaultdict(list)\<close>: a key appears when an event is first appended to it.
\<close>

record tables =
  miso_to_ensembl :: "string \<rightharpoonup> cell"
  miso_to_gencode :: "string \<rightharpoonup> cell"
  miso_to_gene_name :: "string \<rightharpoonup> cell"
  miso_to_gene_type :: "string \<rightharpoonup> cell"
  miso_to_ensembl_transcript :: "string \<rightharpoonup> cell"
  miso_to_gencode_transcript :: "string \<rightharpoonup> cell"
  ensembl_to_miso :: "string \<rightharpoonup> string list"
  gencode_to_miso :: "string \<rightharpoonup> string list"
  gene_name_to_miso :: "string \<rightharpoonup> string list"

definition empty_tables :: tables where
  "empty_tables =
     \<lparr>miso_to_ensembl = Map.empty, miso_to_gencode = Map.empty,
      miso_to_gene_name = Map.empty, miso_to_gene_type = Map.empty,
      miso_to_ensembl_transcript = Map.empty, miso_to_gencode_transcript = Map.empty,
      ensembl_to_miso = Map.empty, gencode_to_miso = Map.empty,
      gene_name_to_miso = Map.empty\<rparr>"

text \<open>\<^verbatim>\<open>for k in keys: d[k].append(miso_id)\<close> on a \<^verbatim>\<open>defaultdict(list)\<close>.\<close>

definition append_to_all :: "string set \<Rightarrow> string \<Rightarrow> (string \<rightharpoonup> string list) \<Rightarrow> (string \<rightharpoonup> string list)" where
  "append_to_all keys miso_id d =
     (\<lambda>k. if k \<in> keys
          then Some ((case d k of None \<Rightarrow> [] | Some events \<Rightarrow> events) @ [miso_id])
          else d k)"

text \<open>Lines 337 to 367: what one event adds to the tables, from the sets gathered for it.\<close>

definition record_event :: "string \<Rightarrow> gene_sets \<Rightarrow> tables \<Rightarrow> tables" where
  "record_event miso_id acc t =
     (if gencode acc \<noteq> {} then
        t\<lparr>ensembl_to_miso := append_to_all (ensembl acc) miso_id (ensembl_to_miso t),
          gene_name_to_miso := append_to_all (gene_name acc) miso_id (gene_name_to_miso t),
          gencode_to_miso := append_to_all (gencode acc) miso_id (gencode_to_miso t),
          miso_to_gencode := (miso_to_gencode t)(miso_id \<mapsto> Joined (gencode acc)),
          miso_to_ensembl := (miso_to_ensembl t)(miso_id \<mapsto> Joined (ensembl acc)),
          miso_to_gene_name := (miso_to_gene_name t)(miso_id \<mapsto> Joined (gene_name acc)),
          miso_to_gene_type := (miso_to_gene_type t)(miso_id \<mapsto> Joined (gene_type acc)),
          miso_to_gencode_transcript :=
            (miso_to_gencode_transcript t)(miso_id \<mapsto> Joined (gencode_transcript acc)),
          miso_to_ensembl_transcript :=
            (miso_to_ensembl_transcript t)(miso_id \<mapsto> Joined (ensembl_transcript acc))\<rparr>
      else
        t\<lparr>miso_to_gencode := (miso_to_gencode t)(miso_id \<mapsto> NaN),
          miso_to_ensembl := (miso_to_ensembl t)(miso_id \<mapsto> NaN),
          miso_to_gene_name := (miso_to_gene_name t)(miso_id \<mapsto> NaN),
          miso_to_gene_type := (miso_to_gene_type t)(miso_id \<mapsto> NaN)\<rparr>)"

text \<open>
  The loop of \<^verbatim>\<open>convert_miso_ids_to_everything\<close>, lines 278 to 367, and the function up
  to the dictionaries \<^verbatim>\<open>miso_tos\<close> and \<^verbatim>\<open>to_misos\<close> of lines 369 to 378, which are then
  written out table by table. The output directory and the event type only name the
  files.
\<close>

fun convert_loop :: "feature_db \<Rightarrow> string list \<Rightarrow> tables \<Rightarrow> py_error + tables" where
  "convert_loop db [] t = Inr t"
| "convert_loop db (miso_id # rest) t =
     (case miso_id_to_exon_ids miso_id of
        Inl err \<Rightarrow> Inl err
      | Inr exons \<Rightarrow>
          (case add_exons db exons no_genes of
             Inl err \<Rightarrow> Inl err
           | Inr acc \<Rightarrow> convert_loop db rest (record_event miso_id acc t)))"

definition convert_miso_ids_to_everything :: "string list \<Rightarrow> feature_db \<Rightarrow> py_error + tables" where
  "convert_miso_ids_to_everything miso_ids db = convert_loop db miso_ids empty_tables"

section \<open>Plot-settings writer\<close>

text \<open>\<^verbatim>\<open>'{0}'.format(int(x))\<close>: an integer in decimal.\<close>

fun show_nat :: "nat \<Rightarrow> string" where
  "show_nat n =
     (if n < 10 then [''0123456789'' ! n]
      else show_nat (n div 10) @ [''0123456789'' ! (n mod 10)])"

declare show_nat.simps [simp del]

definition show_int :: "int \<Rightarrow> string" where
  "show_int i = (if i < 0 then ''-'' @ show_nat (nat (- i)) else show_nat (nat i))"

text \<open>
  The arguments of \<^verbatim>\<open>write_sashimi_plot_settings\<close>. The file names, colours and labels
  are strings and the read counts integers. The numeric and boolean parameters and
  \<^verbatim>\<open>bf_thresholds\<close> reach the document only through \<^verbatim>\<open>format\<close>, as the text \<^verbatim>\<open>str\<close>
  gives for them; here they are that text.
\<close>

record plot_settings =
  ps_bam_prefix :: string
  ps_miso_prefix :: string
  ps_bam_files :: "string list"
  ps_miso_files :: "string list"
  ps_mapped_reads :: "int list"
  ps_colors :: "string list option"
  ps_splice_type :: string
  ps_fig_width :: string
  ps_fig_height :: string
  ps_intron_scale :: string
  ps_exon_scale :: string
  ps_logged :: string
  ps_font_size :: string
  ps_ymax :: string
  ps_show_posteriors :: string
  ps_bar_posteriors :: string
  ps_number_junctions :: string
  ps_resolution :: string
  ps_posterior_bins :: string
  ps_gene_posterior_ratio :: string
  ps_bar_color :: string
  ps_bf_thresholds :: string
  ps_sample_labels :: "string list option"
  ps_reverse_minus :: string

text \<open>
  \<^verbatim>\<open>'[{0}]'.format(',\n\t'.join(items))\<close>, the shape the lists take in the document: the
  separator is a comma, a newline and a tab.
\<close>

definition bracketed :: "string list \<Rightarrow> string" where
  "bracketed items = ''['' @ join ('','' @ [CHR 0x0A, CHR 0x09]) items @ '']''"

text \<open>Lines 680 to 684 and 685 to 689: the text the two optional lists are replaced by.\<close>

definition colors_text :: "string list option \<Rightarrow> string" where
  "colors_text colors =
     (case colors of
        Some cs \<Rightarrow> ''colors = '' @ bracketed (map (\<lambda>x. [CHR 0x22] @ x @ [CHR 0x22]) cs)
      | None \<Rightarrow> [])"

definition sample_labels_text :: "string list option \<Rightarrow> string" where
  "sample_labels_text sample_labels =
     (case sample_labels of
        Some ls \<Rightarrow> ''sample_labels = '' @ bracketed (map (\<lambda>x. [CHR 0x22] @ x @ [CHR 0x22]) ls)
      | None \<Rightarrow> [])"

text \<open>Lines 752, 753 and 757: the three lists formatted in the call itself.\<close>

definition bam_files_text :: "string list \<Rightarrow> string" where
  "bam_files_text bam_files = bracketed (map (\<lambda>x. [CHR 0x22] @ x @ [CHR 0x22]) bam_files)"

definition miso_files_text :: "string \<Rightarrow> string list \<Rightarrow> string" where
  "miso_files_text splice_type miso_files =
     bracketed (map (\<lambda>x. [CHR 0x22] @ x @ ''/'' @ splice_type @ [CHR 0x22]) miso_files)"

definition coverages_text :: "int list \<Rightarrow> string" where
  "coverages_text mapped_reads = bracketed (map show_int mapped_reads)"

text \<open>The template of lines 692 to 750, line by line, with its fields filled in.\<close>

definition settings_lines :: "plot_settings \<Rightarrow> string list" where
  "settings_lines args =
     ['''',
      ''[data]'',
      ''# directory where BAM files are'',
      ''bam_prefix = '' @ ps_bam_prefix args,
      ''# directory where MISO output is'',
      ''miso_prefix = '' @ ps_miso_prefix args,
      '''',
      ''bam_files = '' @ bam_files_text (ps_bam_files args),
      ''miso_files = '' @ miso_files_text (ps_splice_type args) (ps_miso_files args),
      '''',
      ''[plotting]'',
      ''# Dimensions of figure to be plotted (in inches)'',
      ''fig_width = '' @ ps_fig_width args,
      ''fig_height = '' @ ps_fig_height args,
      ''# Factor to scale down introns and exons by'',
      ''intron_scale = '' @ ps_intron_scale args,
      ''exon_scale = '' @ ps_exon_scale args,
      ''# Whether to use a log scale or not when plotting'',
      ''logged = '' @ ps_logged args,
      ''font_size = '' @ ps_font_size args,
      '''',
      ''# Max y-axis'',
      ''ymax = '' @ ps_ymax args,
      '''',
      ''# Whether to plot posterior distributions inferred by MISO'',
      ''show_posteriors = '' @ ps_show_posteriors args,
      '''',
      ''# Whether to show posterior distributions as bar summaries'',
      ''bar_posteriors = '' @ ps_bar_posteriors args,
      '''',
      ''# Whether to plot the number of reads in each junction'',
      ''number_junctions = '' @ ps_number_junctions args,
      '''',
      ''resolution = '' @ ps_resolution args,
      ''posterior_bins = '' @ ps_posterior_bins args,
      ''gene_posterior_ratio = '' @ ps_gene_posterior_ratio args,
      '''',
      ''# List of colors for read denisites of each sample'',
      colors_text (ps_colors args),
      '''',
      ''# Number of mapped reads in each sample'',
      ''# (Used to normalize the read density for RPKM calculation)'',
      ''coverages = '' @ coverages_text (ps_mapped_reads args),
      '''',
      ''# Bar color for Bayes factor distribution'',
      ''# plots (--plot-bf-dist)'',
      ''# Paint them Seaborn '' @ [CHR 0x22] @ ''deep'' @ [CHR 0x22] @ '' palette blue'',
      ''bar_color = '' @ [CHR 0x22] @ ps_bar_color args @ [CHR 0x22],
      '''',
      ''# Bayes factors thresholds to use for --plot-bf-dist'',
      ''bf_thresholds = '' @ ps_bf_thresholds args,
      '''',
      ''# Renamed sample ids'',
      sample_labels_text (ps_sample_labels args),
      '''',
      ''# Whether or not to reverse the minus strand events'',
      ''reverse_minus = '' @ ps_reverse_minus args,
      '''',
      '''']"

text \<open>
  \<^verbatim>\<open>write_sashimi_plot_settings\<close>: the text written to the file, the lines of the template
  joined by newlines.
\<close>

definition write_sashimi_plot_settings :: "plot_settings \<Rightarrow> string" where
  "write_sashimi_plot_settings args = join [CHR 0x0A] (settings_lines args)"

section \<open>What the parser accepts\<close>

text \<open>
  The condition under which an exon field parses, written on the field alone: it has
  at least two \<^verbatim>\<open>:\<close>-separated parts, and the second part, cut at its first \<^verbatim>\<open>|\<close>,
  either holds exactly one \<^verbatim>\<open>-\<close> or holds none while the field has a third part.
  It is compared with \<open>miso_exon_to_coords\<close> below.
\<close>

definition parses_exon_field :: "string \<Rightarrow> bool" where
  "parses_exon_field exon =
     (let parts = split_on CHR '':'' exon
      in 2 \<le> length parts \<and>
         (let region = takeWhile (\<lambda>c. c \<noteq> CHR ''|'') (parts ! 1)
          in if CHR ''-'' \<in> set region then count_list region CHR ''-'' = 1
             else 3 \<le> length parts))"

section \<open>Properties of the parser\<close>

lemma split_on_not_Nil: "split_on c s \<noteq> []"
  by (induction s) (auto split: list.splits)

lemma hd_split_on: "hd (split_on c s) = takeWhile (\<lambda>x. x \<noteq> c) s"
  by (induction s) (auto split: list.splits simp: split_on_not_Nil)

lemma length_split_on: "length (split_on c s) = Suc (count_list s c)"
  by (induction s) (auto simp: split_on_not_Nil split: list.splits)



lemma length_two: "length xs = 2 \<longleftrightarrow> (\<exists>a b. xs = [a, b])"
  by (cases xs; cases "tl xs") auto

lemma miso_exon_to_coords_ok_iff:
  "(\<exists>r. miso_exon_to_coords exon = Inr r) \<longleftrightarrow> parses_exon_field exon"
proof (cases "exon = []")
  case True
  then show ?thesis by (simp add: miso_exon_to_coords_def parses_exon_field_def)
next
  case False
  let ?region = "takeWhile (\<lambda>c. c \<noteq> CHR ''|'') (split_on CHR '':'' exon ! 1)"
  have two: "(\<exists>a b. split_on CHR ''-'' ?region = [a, b]) \<longleftrightarrow> count_list ?region CHR ''-'' = 1"
    using length_two [of "split_on CHR ''-'' ?region"] by (simp add: length_split_on)
  show ?thesis
  proof (cases "count_list ?region CHR ''-'' = 1")
    case True
    then obtain a b where "split_on CHR ''-'' ?region = [a, b]" using two by blast
    with False True show ?thesis
      by (auto simp: miso_exon_to_coords_def parses_exon_field_def Let_def hd_split_on)
  next
    case neq: False
    then have "\<not> (\<exists>a b. split_on CHR ''-'' ?region = [a, b])" using two by blast
    with False neq show ?thesis
      by (auto simp: miso_exon_to_coords_def parses_exon_field_def Let_def hd_split_on
          split: list.splits)
  qed
qed

lemma miso_exon_to_coords_error:
  "miso_exon_to_coords exon = Inl e \<Longrightarrow> e = IndexError \<or> e = ValueError"
  by (auto simp: miso_exon_to_coords_def Let_def split: if_splits list.splits)

lemma map_raising_ok_iff:
  "(\<exists>ys. map_raising f xs = Inr ys \<and> length ys = length xs) \<longleftrightarrow> (\<forall>x\<in>set xs. \<exists>y. f x = Inr y)"
  by (induction xs) (auto split: sum.splits)

lemma map_raising_error:
  "map_raising f xs = Inl e \<Longrightarrow> \<exists>x\<in>set xs. f x = Inl e"
  by (induction xs) (auto split: sum.splits)

lemma miso_exon_to_gencode_exon_ok_iff:
  "(\<exists>r. miso_exon_to_gencode_exon exon = Inr r) \<longleftrightarrow> parses_exon_field exon"
  unfolding miso_exon_to_coords_ok_iff [symmetric]
  by (auto simp: miso_exon_to_gencode_exon_def split: sum.splits)

lemma miso_exon_to_gencode_exon_error:
  "miso_exon_to_gencode_exon exon = Inl e \<Longrightarrow> e = IndexError \<or> e = ValueError"
  by (auto simp: miso_exon_to_gencode_exon_def split: sum.splits dest: miso_exon_to_coords_error)

lemma map_raising_length: "map_raising f xs = Inr ys \<Longrightarrow> length ys = length xs"
  by (induction xs arbitrary: ys) (auto split: sum.splits)

lemma map_raising_succeeds:
  "\<forall>x\<in>set xs. \<exists>y. f x = Inr y \<Longrightarrow>
   \<exists>ys. map_raising f xs = Inr ys \<and> length ys = length xs"
  using map_raising_ok_iff [of f xs] by simp

lemma map_raising_fails:
  assumes "\<not> (\<forall>x\<in>set xs. \<exists>y. f x = Inr y)"
  shows "\<exists>e. map_raising f xs = Inl e \<and> (\<exists>x\<in>set xs. f x = Inl e)"
proof -
  have "\<not> (\<exists>ys. map_raising f xs = Inr ys)"
  proof
    assume "\<exists>ys. map_raising f xs = Inr ys"
    then obtain ys where ys: "map_raising f xs = Inr ys" ..
    with map_raising_length [OF ys] map_raising_ok_iff [of f xs] assms show False by blast
  qed
  then obtain e where e: "map_raising f xs = Inl e" by (cases "map_raising f xs") auto
  with map_raising_error [OF e] show ?thesis by blast
qed

text \<open>
  Claim C5, as the code has it. The parser has no check of the number of exon fields
  against the splice type and no check that a coordinate is numeric, and it has no
  error of its own. When every \<^verbatim>\<open>@\<close>-separated field of an identifier satisfies
  \<open>parses_exon_field\<close>, the identifier parses, with one result for each field; when
  some field does not, parsing fails, with an IndexError or a ValueError. This holds
  for the exon identifiers and for the coordinates alike.
\<close>

theorem miso_id_parses_or_fails:
  "(if \<forall>exon\<in>set (split_on CHR ''@'' miso_id). parses_exon_field exon
    then (\<exists>ids. miso_id_to_exon_ids miso_id = Inr ids
                \<and> length ids = length (split_on CHR ''@'' miso_id))
         \<and> (\<exists>coords. miso_id_to_coords miso_id = Inr coords
                \<and> length coords = length (split_on CHR ''@'' miso_id))
    else (miso_id_to_exon_ids miso_id = Inl IndexError
            \<or> miso_id_to_exon_ids miso_id = Inl ValueError)
         \<and> (miso_id_to_coords miso_id = Inl IndexError
            \<or> miso_id_to_coords miso_id = Inl ValueError))"
proof -
  let ?fields = "split_on CHR ''@'' miso_id"
  have g: "(\<forall>x\<in>set ?fields. \<exists>y. miso_exon_to_gencode_exon x = Inr y)
      \<longleftrightarrow> (\<forall>exon\<in>set ?fields. parses_exon_field exon)"
    unfolding miso_exon_to_gencode_exon_ok_iff ..
  have c: "(\<forall>x\<in>set ?fields. \<exists>y. miso_exon_to_coords x = Inr y)
      \<longleftrightarrow> (\<forall>exon\<in>set ?fields. parses_exon_field exon)"
    unfolding miso_exon_to_coords_ok_iff ..
  show ?thesis
  proof (cases "\<forall>exon\<in>set ?fields. parses_exon_field exon")
    case True
    from True have tg: "\<forall>x\<in>set ?fields. \<exists>y. miso_exon_to_gencode_exon x = Inr y"
      unfolding g .
    from True have tc: "\<forall>x\<in>set ?fields. \<exists>y. miso_exon_to_coords x = Inr y"
      unfolding c .
    have "(\<exists>ids. miso_id_to_exon_ids miso_id = Inr ids \<and> length ids = length ?fields)
         \<and> (\<exists>coords. miso_id_to_coords miso_id = Inr coords \<and> length coords = length ?fields)"
      unfolding miso_id_to_exon_ids_def miso_id_to_coords_def
      using map_raising_succeeds [OF tg] map_raising_succeeds [OF tc] by (rule conjI)
    then show ?thesis unfolding if_P [OF True] .
  next
    case False
    from False have fg: "\<not> (\<forall>x\<in>set ?fields. \<exists>y. miso_exon_to_gencode_exon x = Inr y)"
      unfolding g .
    from False have fc: "\<not> (\<forall>x\<in>set ?fields. \<exists>y. miso_exon_to_coords x = Inr y)"
      unfolding c .
    from map_raising_fails [OF fg] obtain e x where
      "map_raising miso_exon_to_gencode_exon ?fields = Inl e"
      "miso_exon_to_gencode_exon x = Inl e"
      by blast
    then have 1: "miso_id_to_exon_ids miso_id = Inl IndexError
            \<or> miso_id_to_exon_ids miso_id = Inl ValueError"
      unfolding miso_id_to_exon_ids_def
      using miso_exon_to_gencode_exon_error [of x e] by auto
    from map_raising_fails [OF fc] obtain e' x' where
      "map_raising miso_exon_to_coords ?fields = Inl e'"
      "miso_exon_to_coords x' = Inl e'"
      by blast
    then have 2: "miso_id_to_coords miso_id = Inl IndexError
            \<or> miso_id_to_coords miso_id = Inl ValueError"
      unfolding miso_id_to_coords_def
      using miso_exon_to_coords_error [of x' e'] by auto
    from 1 2 have "(miso_id_to_exon_ids miso_id = Inl IndexError
            \<or> miso_id_to_exon_ids miso_id = Inl ValueError)
         \<and> (miso_id_to_coords miso_id = Inl IndexError
            \<or> miso_id_to_coords miso_id = Inl ValueError)" by (rule conjI)
    then show ?thesis unfolding if_not_P [OF False] .
  qed
qed

text \<open>
  An identifier of two exon fields, where a skipped-exon event has three, parses. An
  identifier whose second field has two parts only fails with an IndexError, and a
  field with two hyphens in its region with a ValueError.
\<close>

theorem miso_id_parses_or_fails_witness:
  "split_on CHR ''@'' ''chr1:100:200:+@chr1:300:400:+'' = [''chr1:100:200:+'', ''chr1:300:400:+'']
   \<and> parses_exon_field ''chr1:100:200:+''
   \<and> parses_exon_field ''chr1:300:400:+''
   \<and> miso_id_to_exon_ids ''chr1:100:200:+@chr1:300:400:+''
       = Inr [''exon:chr1:100-200:+'', ''exon:chr1:300-400:+'']
   \<and> miso_id_to_coords ''chr1:100:200:+@chr1:300:400:+''
       = Inr [(''chr1'', ''100'', ''200'', ''+''), (''chr1'', ''300'', ''400'', ''+'')]
   \<and> split_on CHR ''@'' ''chr1:100:200:+@chr1:300'' = [''chr1:100:200:+'', ''chr1:300'']
   \<and> \<not> parses_exon_field ''chr1:300''
   \<and> miso_id_to_exon_ids ''chr1:100:200:+@chr1:300'' = Inl IndexError
   \<and> miso_id_to_coords ''chr1:100:200:+@chr1:300'' = Inl IndexError
   \<and> split_on CHR ''@'' ''chr1:1-2-3:+'' = [''chr1:1-2-3:+'']
   \<and> \<not> parses_exon_field ''chr1:1-2-3:+''
   \<and> miso_id_to_exon_ids ''chr1:1-2-3:+'' = Inl ValueError"
  using miso_id_parses_or_fails [of "''chr1:100:200:+@chr1:300:400:+''"] miso_id_parses_or_fails [of "''chr1:100:200:+@chr1:300''"]
    miso_id_parses_or_fails [of "''chr1:1-2-3:+''"]
  by (simp add: parses_exon_field_def miso_id_to_exon_ids_def miso_id_to_coords_def
      miso_exon_to_gencode_exon_def miso_exon_to_coords_def)

text \<open>
  Claim C5 as the specification states it fails: with the splice type \<^verbatim>\<open>'SE'\<close>, whose
  exon count is three, an identifier of two exon fields parses, and so does an exon
  field whose coordinates are not numbers.
\<close>

theorem miso_id_parse_unchecked:
  "n_exons ''SE'' = Some 3
   \<and> miso_id_to_exon_ids ''chr1:100:200:+@chr1:300:400:+''
       = Inr [''exon:chr1:100-200:+'', ''exon:chr1:300-400:+'']
   \<and> miso_exon_to_coords ''chr1:abc:def:+'' = Inr (''chr1'', ''abc'', ''def'', ''+'')"
  by (simp add: n_exons_def miso_id_to_exon_ids_def miso_exon_to_gencode_exon_def
      miso_exon_to_coords_def)




section \<open>Properties of the isoform resolver\<close>

text \<open>
  Claim C1. For \<^verbatim>\<open>'MXE'\<close> the docstring of \<^verbatim>\<open>splice_type_exons\<close> gives isoform 1 as
  (exon1, exon3, exon4) and isoform 2 as (exon1, exon2, exon4), and
  \<^verbatim>\<open>splice_type_isoforms\<close> takes the transcripts the same way round. The code returns
  the two tuples the other way round.
\<close>

theorem splice_type_exons_MXE_order:
  "splice_type_exons ''MXE'' [''exon1'', ''exon2'', ''exon3'', ''exon4'']
     = Inr (Some [''exon1'', ''exon2'', ''exon4''], Some [''exon1'', ''exon3'', ''exon4''])"
  by (simp add: splice_type_exons_def)

text \<open>For \<^verbatim>\<open>'SE'\<close> the tuples are the ones the specification gives.\<close>

lemma splice_type_exons_SE:
  "3 \<le> length exons \<Longrightarrow>
   splice_type_exons ''SE'' exons
     = Inr (Some [exons ! 0, exons ! 2], Some [exons ! 0, exons ! 1, exons ! 2])"
  by (simp add: splice_type_exons_def)

text \<open>
  Claim C3. On collections that can be traversed again the two sets are the
  intersections the specification gives.
\<close>

lemma splice_type_isoforms_SE_collections:
  "splice_type_isoforms ''SE'' [Collection p1, Collection p2, Collection p3]
     = Inr ((Some (set p1 \<inter> set p3), Some (set p2 \<inter> (set p1 \<inter> set p3))),
            [Collection p1, Collection p2, Collection p3])"
  by (simp add: splice_type_isoforms_def set_at_def Let_def)

lemma splice_type_isoforms_MXE_collections:
  "splice_type_isoforms ''MXE'' [Collection p1, Collection p2, Collection p3, Collection p4]
     = Inr ((Some (set p1 \<inter> set p3 \<inter> set p4), Some (set p1 \<inter> set p2 \<inter> set p4)),
            [Collection p1, Collection p2, Collection p3, Collection p4])"
  by (simp add: splice_type_isoforms_def set_at_def)

text \<open>
  Claim C3, on what the docstring says the function receives: iterators. For \<^verbatim>\<open>'MXE'\<close>
  the second set is built from \<^verbatim>\<open>set(transcripts[0])\<close> and \<^verbatim>\<open>set(transcripts[3])\<close> again,
  after the first set has exhausted both, so it is empty. With the positions
  {A, B}, {A}, {B}, {A, B} the first set is {B} and the second, which the
  specification gives as {A}, is empty.
\<close>

theorem splice_type_isoforms_MXE_iterators:
  "splice_type_isoforms ''MXE''
       [Iterator [''A'', ''B''], Iterator [''A''], Iterator [''B''], Iterator [''A'', ''B'']]
     = Inr ((Some {''B''}, Some {}), [Iterator [], Iterator [], Iterator [], Iterator []])"
  by (simp add: splice_type_isoforms_def set_at_def)

text \<open>
  Claim C6. Whatever the splice type and the transcripts, the two sets that are left
  after the common transcripts have been removed from both are disjoint; and the call
  does return two sets for \<^verbatim>\<open>'SE'\<close> with three positions or more and for \<^verbatim>\<open>'MXE'\<close> with
  four or more.
\<close>

theorem transcripts_per_isoform_disjoint:
  "(\<forall>isoform1s isoform2s.
      transcripts_per_isoform splice_type transcripts = Inr (isoform1s, isoform2s)
      \<longrightarrow> isoform1s \<inter> isoform2s = {})
   \<and> ((splice_type = ''SE'' \<and> 3 \<le> length transcripts
        \<or> splice_type = ''MXE'' \<and> 4 \<le> length transcripts)
      \<longrightarrow> (\<exists>isoform1s isoform2s.
            transcripts_per_isoform splice_type transcripts = Inr (isoform1s, isoform2s)))"
  by (auto simp: transcripts_per_isoform_def splice_type_isoforms_def Let_def
      split: sum.splits prod.splits option.splits if_splits)

theorem transcripts_per_isoform_disjoint_witness:
  "transcripts_per_isoform ''MXE''
       [Collection [''A'', ''B'', ''C''], Collection [''A'', ''C''], Collection [''B'', ''C''],
        Collection [''A'', ''B'', ''C'']]
     = Inr ({''B''}, {''A''})
   \<and> {''B''} \<inter> {''A''} = ({} :: string set)"
proof -
  have r: "transcripts_per_isoform ''MXE''
       [Collection [''A'', ''B'', ''C''], Collection [''A'', ''C''], Collection [''B'', ''C''],
        Collection [''A'', ''B'', ''C'']]
     = Inr ({''B''}, {''A''})"
    by (auto simp: transcripts_per_isoform_def splice_type_isoforms_def set_at_def Let_def)
  with transcripts_per_isoform_disjoint
         [of "''MXE''" "[Collection [''A'', ''B'', ''C''], Collection [''A'', ''C''],
                         Collection [''B'', ''C''], Collection [''A'', ''B'', ''C'']]"]
  show ?thesis by blast
qed

text \<open>
  Claim C8. For \<^verbatim>\<open>'SE'\<close> with three positions or more the call returns two sets, the
  second a subset of the first; so the transcripts common to both are the second set,
  and after their removal the set of isoform 2 is empty and that of isoform 1 is the
  first set without the second.
\<close>

theorem SE_isoform2_subset_then_empty:
  "3 \<le> length transcripts \<Longrightarrow>
   \<exists>isoform1s isoform2s ts'.
     splice_type_isoforms ''SE'' transcripts = Inr ((Some isoform1s, Some isoform2s), ts')
     \<and> isoform2s \<subseteq> isoform1s
     \<and> transcripts_per_isoform ''SE'' transcripts = Inr (isoform1s - isoform2s, {})"
  by (auto simp: transcripts_per_isoform_def splice_type_isoforms_def Let_def
      split: sum.splits prod.splits option.splits if_splits)

theorem SE_isoform2_subset_then_empty_witness:
  "3 \<le> length [Iterator [''t1'', ''t2''], Iterator [''t2'', ''t3''], Iterator [''t1'', ''t2'']]
   \<and> (\<exists>isoform1s isoform2s ts'.
        splice_type_isoforms ''SE''
            [Iterator [''t1'', ''t2''], Iterator [''t2'', ''t3''], Iterator [''t1'', ''t2'']]
          = Inr ((Some isoform1s, Some isoform2s), ts')
        \<and> isoform2s \<subseteq> isoform1s
        \<and> transcripts_per_isoform ''SE''
            [Iterator [''t1'', ''t2''], Iterator [''t2'', ''t3''], Iterator [''t1'', ''t2'']]
          = Inr (isoform1s - isoform2s, {}))"
  using SE_isoform2_subset_then_empty
          [of "[Iterator [''t1'', ''t2''], Iterator [''t2'', ''t3''], Iterator [''t1'', ''t2'']]"]
  by simp

section \<open>Properties of the intron interval builder\<close>

text \<open>
  Claim C2, on the example of the docstring of \<^verbatim>\<open>coords_to_intron_bedtool\<close>, which
  prints the intervals 200 to 300 on chr1 and 400 to 500 on chr2. The code subtracts
  one from the start after it has taken the end of the flanking exon, so the
  intervals it builds start at 199 and at 399.
\<close>

theorem coords_to_intron_bedtool_docstring_example:
  "coords_to_intron_bedtool [''event1'', ''event2'']
       [[(''chr1'', ''100'', ''200'', ''+''), (''chr1'', ''300'', ''400'', ''+''),
         (''chr1'', ''500'', ''600'', ''+'')],
        [(''chr2'', ''500'', ''600'', ''-''), (''chr2'', ''300'', ''400'', ''-''),
         (''chr2'', ''100'', ''200'', ''-'')]]
       1
     = Inr [\<lparr>iv_chrom = ''chr1'', iv_start = 199, iv_stop = 300, iv_strand = ''+'',
             iv_name = ''event1'', iv_score = ''1000''\<rparr>,
            \<lparr>iv_chrom = ''chr2'', iv_start = 399, iv_stop = 500, iv_strand = ''-'',
             iv_name = ''event2'', iv_score = ''1000''\<rparr>]"
  by (simp add: coords_to_intron_bedtool_def intron_interval_def py_slice_def py_int_def
      strip_def is_space_def digit_val_def chrpos_ok_def)

lemma intron_interval_exchange:
  assumes h: "intron_interval n vars miso_id exons = Inr (iv, vars')"
  shows "\<exists>start stop.
     intron_bounds n vars exons = Inr (start, stop)
     \<and> iv_start iv = (if start > stop then stop else start)
     \<and> iv_stop iv = (if start > stop then start else stop)
     \<and> iv_name iv = miso_id
     \<and> vars' = (IntV (iv_start iv), IntV (iv_stop iv))"
proof -
  from h obtain e1 e2 where sl: "py_slice exons (n - 1) (n + 1) = [e1, e2]"
    unfolding intron_interval_def by (auto split: list.splits prod.splits)
  obtain c1 s1 t1 d1 where e1: "e1 = (c1, s1, t1, d1)" by (cases e1)
  obtain c2 s2 t2 d2 where e2: "e2 = (c2, s2, t2, d2)" by (cases e2)
  obtain x y where xy: "(if d1 = ''+'' then (StrV t1, StrV s2)
                 else if d1 = ''-'' then (StrV t2, StrV s1)
                 else vars) = (x, y)"
    by (cases "(if d1 = ''+'' then (StrV t1, StrV s2)
                 else if d1 = ''-'' then (StrV t2, StrV s1)
                 else vars)")
  from h obtain a where a: "int_of_pyval x = Inr a"
    unfolding intron_interval_def by (simp add: sl e1 e2 xy split: sum.splits)
  from h a obtain b where b: "int_of_pyval y = Inr b"
    unfolding intron_interval_def by (simp add: sl e1 e2 xy split: sum.splits)
  have bounds: "intron_bounds n vars exons = Inr (a - 1, b)"
    unfolding intron_bounds_def by (simp add: sl e1 e2 xy a b)
  from h have "iv_start iv = (if a - 1 > b then b else a - 1)
     \<and> iv_stop iv = (if a - 1 > b then a - 1 else b)
     \<and> iv_name iv = miso_id
     \<and> vars' = (IntV (iv_start iv), IntV (iv_stop iv))"
    unfolding intron_interval_def by (auto simp: sl e1 e2 xy a b Let_def split: if_splits)
  with bounds show ?thesis by blast
qed

lemma intron_interval_ordered:
  "intron_interval n vars miso_id exons = Inr (iv, vars') \<Longrightarrow> iv_start iv \<le> iv_stop iv"
  by (drule intron_interval_exchange) (auto split: if_splits)

lemma intron_intervals_exchange:
  "intron_intervals n vars events = Inr ivs \<Longrightarrow>
   length ivs = length events
   \<and> (\<forall>k<length ivs.
        \<exists>start stop.
          intron_bounds n
              (if k = 0 then vars
               else (IntV (iv_start (ivs ! (k - 1))), IntV (iv_stop (ivs ! (k - 1)))))
              (snd (events ! k))
            = Inr (start, stop)
          \<and> iv_start (ivs ! k) = (if start > stop then stop else start)
          \<and> iv_stop (ivs ! k) = (if start > stop then start else stop)
          \<and> iv_name (ivs ! k) = fst (events ! k))"
proof (induction events arbitrary: vars ivs)
  case Nil
  then show ?case by simp
next
  case (Cons ev events)
  obtain miso_id exons where ev: "ev = (miso_id, exons)" by (cases ev)
  from Cons.prems ev obtain iv vars' rest where
    step: "intron_interval n vars miso_id exons = Inr (iv, vars')" and
    tail: "intron_intervals n vars' events = Inr rest" and
    ivs: "ivs = iv # rest"
    by (auto split: sum.splits prod.splits)
  from intron_interval_exchange [OF step] obtain start stop where
    b: "intron_bounds n vars exons = Inr (start, stop)" and
    s1: "iv_start iv = (if start > stop then stop else start)" and
    s2: "iv_stop iv = (if start > stop then start else stop)" and
    nm: "iv_name iv = miso_id" and
    v: "vars' = (IntV (iv_start iv), IntV (iv_stop iv))"
    by blast
  from Cons.IH [OF tail] have len: "length rest = length events" and
    ih: "\<And>k. k < length rest \<Longrightarrow>
        \<exists>start stop.
          intron_bounds n
              (if k = 0 then vars'
               else (IntV (iv_start (rest ! (k - 1))), IntV (iv_stop (rest ! (k - 1)))))
              (snd (events ! k))
            = Inr (start, stop)
          \<and> iv_start (rest ! k) = (if start > stop then stop else start)
          \<and> iv_stop (rest ! k) = (if start > stop then start else stop)
          \<and> iv_name (rest ! k) = fst (events ! k)"
    by blast+
  show ?case
  proof (intro conjI allI impI)
    show "length ivs = length (ev # events)" using ivs len by simp
  next
    fix k assume k: "k < length ivs"
    show "\<exists>start stop.
          intron_bounds n
              (if k = 0 then vars
               else (IntV (iv_start (ivs ! (k - 1))), IntV (iv_stop (ivs ! (k - 1)))))
              (snd ((ev # events) ! k))
            = Inr (start, stop)
          \<and> iv_start (ivs ! k) = (if start > stop then stop else start)
          \<and> iv_stop (ivs ! k) = (if start > stop then start else stop)
          \<and> iv_name (ivs ! k) = fst ((ev # events) ! k)"
    proof (cases k)
      case 0
      with b s1 s2 nm ev ivs show ?thesis by simp
    next
      case (Suc j)
      with k ivs have j: "j < length rest" by simp
      have entry: "(if j = 0 then vars'
               else (IntV (iv_start (rest ! (j - 1))), IntV (iv_stop (rest ! (j - 1)))))
          = (IntV (iv_start (ivs ! (k - 1))), IntV (iv_stop (ivs ! (k - 1))))"
        using Suc ivs v by (cases j) simp_all
      from ih [OF j] show ?thesis
        unfolding entry using Suc ivs by simp
    qed
  qed
qed

lemma intron_intervals_ordered:
  "intron_intervals n vars events = Inr ivs \<Longrightarrow> \<forall>iv\<in>set ivs. iv_start iv \<le> iv_stop iv"
proof (induction events arbitrary: vars ivs)
  case Nil
  then show ?case by simp
next
  case (Cons ev events)
  obtain miso_id exons where ev: "ev = (miso_id, exons)" by (cases ev)
  from Cons.prems ev obtain iv vars' rest where
    step: "intron_interval n vars miso_id exons = Inr (iv, vars')" and
    tail: "intron_intervals n vars' events = Inr rest" and
    ivs: "ivs = iv # rest"
    by (auto split: sum.splits prod.splits)
  from intron_interval_ordered [OF step] Cons.IH [OF tail] ivs show ?case by simp
qed

text \<open>
  Claim C9. Whenever \<^verbatim>\<open>coords_to_intron_bedtool\<close> returns, it has built one interval
  for each event, named after it, and for every event the two bounds computed from
  its exons (or, for a strand that is neither \<^verbatim>\<open>'+'\<close> nor \<^verbatim>\<open>'-'\<close>, from the bounds the
  event before left) are exchanged when the start computed exceeds the end computed
  and kept as they are otherwise. So every interval has its start at or below its
  end, for every list of events, every list of coordinates and every intron number.
\<close>

theorem coords_to_intron_bedtool_bounds_exchanged:
  "coords_to_intron_bedtool miso_ids coords intron_number = Inr intervals \<Longrightarrow>
   (\<forall>iv\<in>set intervals. iv_start iv \<le> iv_stop iv)
   \<and> length intervals = min (length miso_ids) (length coords)
   \<and> (\<forall>k<length intervals.
        \<exists>start stop.
          intron_bounds intron_number
              (if k = 0 then (Unbound, Unbound)
               else (IntV (iv_start (intervals ! (k - 1))),
                     IntV (iv_stop (intervals ! (k - 1)))))
              (coords ! k)
            = Inr (start, stop)
          \<and> iv_start (intervals ! k) = (if start > stop then stop else start)
          \<and> iv_stop (intervals ! k) = (if start > stop then start else stop)
          \<and> iv_name (intervals ! k) = miso_ids ! k)"
proof -
  assume r: "coords_to_intron_bedtool miso_ids coords intron_number = Inr intervals"
  then have l: "intron_intervals intron_number (Unbound, Unbound) (zip miso_ids coords) = Inr intervals"
    by (simp add: coords_to_intron_bedtool_def)
  note e = intron_intervals_exchange [OF l]
  from e have len: "length intervals = min (length miso_ids) (length coords)" by simp
  have "\<forall>k<length intervals.
        \<exists>start stop.
          intron_bounds intron_number
              (if k = 0 then (Unbound, Unbound)
               else (IntV (iv_start (intervals ! (k - 1))),
                     IntV (iv_stop (intervals ! (k - 1)))))
              (coords ! k)
            = Inr (start, stop)
          \<and> iv_start (intervals ! k) = (if start > stop then stop else start)
          \<and> iv_stop (intervals ! k) = (if start > stop then start else stop)
          \<and> iv_name (intervals ! k) = miso_ids ! k"
  proof (intro allI impI)
    fix k assume k: "k < length intervals"
    with len have "k < length miso_ids" "k < length coords" by simp_all
    then have z: "zip miso_ids coords ! k = (miso_ids ! k, coords ! k)" by simp
    from e k have "\<exists>start stop.
          intron_bounds intron_number
              (if k = 0 then (Unbound, Unbound)
               else (IntV (iv_start (intervals ! (k - 1))),
                     IntV (iv_stop (intervals ! (k - 1)))))
              (snd (zip miso_ids coords ! k))
            = Inr (start, stop)
          \<and> iv_start (intervals ! k) = (if start > stop then stop else start)
          \<and> iv_stop (intervals ! k) = (if start > stop then start else stop)
          \<and> iv_name (intervals ! k) = fst (zip miso_ids coords ! k)"
      by blast
    then show "\<exists>start stop.
          intron_bounds intron_number
              (if k = 0 then (Unbound, Unbound)
               else (IntV (iv_start (intervals ! (k - 1))),
                     IntV (iv_stop (intervals ! (k - 1)))))
              (coords ! k)
            = Inr (start, stop)
          \<and> iv_start (intervals ! k) = (if start > stop then stop else start)
          \<and> iv_stop (intervals ! k) = (if start > stop then start else stop)
          \<and> iv_name (intervals ! k) = miso_ids ! k"
      unfolding z fst_conv snd_conv .
  qed
  with len intron_intervals_ordered [OF l] show ?thesis by blast
qed


text \<open>
  Exons listed downwards on the plus strand and upwards on the minus strand: the
  bounds computed are 599 and 300, then 399 and 100, and the intervals built are 300
  to 599 and 100 to 399.
\<close>

theorem coords_to_intron_bedtool_bounds_exchanged_witness:
  "coords_to_intron_bedtool [''e1'', ''e2'']
       [[(''chr1'', ''500'', ''600'', ''+''), (''chr1'', ''300'', ''400'', ''+''),
         (''chr1'', ''100'', ''200'', ''+'')],
        [(''chr2'', ''100'', ''200'', ''-''), (''chr2'', ''300'', ''400'', ''-''),
         (''chr2'', ''500'', ''600'', ''-'')]]
       1
     = Inr [\<lparr>iv_chrom = ''chr1'', iv_start = 300, iv_stop = 599, iv_strand = ''+'',
             iv_name = ''e1'', iv_score = ''1000''\<rparr>,
            \<lparr>iv_chrom = ''chr2'', iv_start = 100, iv_stop = 399, iv_strand = ''-'',
             iv_name = ''e2'', iv_score = ''1000''\<rparr>]
   \<and> intron_bounds 1 (Unbound, Unbound)
        [(''chr1'', ''500'', ''600'', ''+''), (''chr1'', ''300'', ''400'', ''+''),
         (''chr1'', ''100'', ''200'', ''+'')]
       = Inr (599, 300)
   \<and> intron_bounds 1 (IntV 300, IntV 599)
        [(''chr2'', ''100'', ''200'', ''-''), (''chr2'', ''300'', ''400'', ''-''),
         (''chr2'', ''500'', ''600'', ''-'')]
       = Inr (399, 100)
   \<and> (300::int) \<le> 599 \<and> (100::int) \<le> 399"
proof -
  have r: "coords_to_intron_bedtool [''e1'', ''e2'']
       [[(''chr1'', ''500'', ''600'', ''+''), (''chr1'', ''300'', ''400'', ''+''),
         (''chr1'', ''100'', ''200'', ''+'')],
        [(''chr2'', ''100'', ''200'', ''-''), (''chr2'', ''300'', ''400'', ''-''),
         (''chr2'', ''500'', ''600'', ''-'')]]
       1
     = Inr [\<lparr>iv_chrom = ''chr1'', iv_start = 300, iv_stop = 599, iv_strand = ''+'',
             iv_name = ''e1'', iv_score = ''1000''\<rparr>,
            \<lparr>iv_chrom = ''chr2'', iv_start = 100, iv_stop = 399, iv_strand = ''-'',
             iv_name = ''e2'', iv_score = ''1000''\<rparr>]"
    by (simp add: coords_to_intron_bedtool_def intron_interval_def py_slice_def py_int_def
        strip_def is_space_def digit_val_def chrpos_ok_def)
  have b1: "intron_bounds 1 (Unbound, Unbound)
        [(''chr1'', ''500'', ''600'', ''+''), (''chr1'', ''300'', ''400'', ''+''),
         (''chr1'', ''100'', ''200'', ''+'')]
       = Inr (599, 300)"
    by (simp add: intron_bounds_def py_slice_def py_int_def strip_def is_space_def digit_val_def)
  have b2: "intron_bounds 1 (IntV 300, IntV 599)
        [(''chr2'', ''100'', ''200'', ''-''), (''chr2'', ''300'', ''400'', ''-''),
         (''chr2'', ''500'', ''600'', ''-'')]
       = Inr (399, 100)"
    by (simp add: intron_bounds_def py_slice_def py_int_def strip_def is_space_def digit_val_def)
  from coords_to_intron_bedtool_bounds_exchanged [OF r] r b1 b2 show ?thesis by simp
qed

section \<open>Properties of the annotation conversion\<close>

text \<open>
  An event for which no gene identifier was gathered: the four gene tables get
  \<^verbatim>\<open>np.nan\<close> for it, and nothing else changes. The two transcript tables and the
  three inverse tables are left as they were.
\<close>

lemma record_event_no_genes:
  assumes "gencode acc = {}"
  shows "miso_to_gencode (record_event miso_id acc t) miso_id = Some NaN"
    and "miso_to_ensembl (record_event miso_id acc t) miso_id = Some NaN"
    and "miso_to_gene_name (record_event miso_id acc t) miso_id = Some NaN"
    and "miso_to_gene_type (record_event miso_id acc t) miso_id = Some NaN"
    and "miso_to_gencode_transcript (record_event miso_id acc t) = miso_to_gencode_transcript t"
    and "miso_to_ensembl_transcript (record_event miso_id acc t) = miso_to_ensembl_transcript t"
    and "ensembl_to_miso (record_event miso_id acc t) = ensembl_to_miso t"
    and "gencode_to_miso (record_event miso_id acc t) = gencode_to_miso t"
    and "gene_name_to_miso (record_event miso_id acc t) = gene_name_to_miso t"
  using assms by (simp_all add: record_event_def)

lemma add_exon_empty_db:
  "add_exon \<lparr>db_getitem = \<lambda>_. None, db_features_of_type = \<lambda>_ _ _. []\<rparr> e acc = Inr acc"
  by (simp add: add_exon_def split: list.splits sum.splits)

text \<open>
  Claim C4, on a skipped-exon event and a store that knows none of its exons and no
  transcript over them. The event is a key of the four gene tables, with the missing
  value, and of no inverse table; but it is no key of the two transcript tables,
  which stay empty: the branch of line 363 assigns four of the six tables that the
  branch of line 337 assigns.
\<close>

theorem convert_miso_ids_event_without_genes:
  "convert_miso_ids_to_everything [''chr1:100:200:+@chr1:300:400:+@chr1:500:600:+'']
       \<lparr>db_getitem = \<lambda>_. None, db_features_of_type = \<lambda>_ _ _. []\<rparr>
     = Inr (empty_tables
         \<lparr>miso_to_ensembl := [''chr1:100:200:+@chr1:300:400:+@chr1:500:600:+'' \<mapsto> NaN],
          miso_to_gencode := [''chr1:100:200:+@chr1:300:400:+@chr1:500:600:+'' \<mapsto> NaN],
          miso_to_gene_name := [''chr1:100:200:+@chr1:300:400:+@chr1:500:600:+'' \<mapsto> NaN],
          miso_to_gene_type := [''chr1:100:200:+@chr1:300:400:+@chr1:500:600:+'' \<mapsto> NaN],
          miso_to_ensembl_transcript := Map.empty,
          miso_to_gencode_transcript := Map.empty\<rparr>)"
proof -
  have ids: "miso_id_to_exon_ids ''chr1:100:200:+@chr1:300:400:+@chr1:500:600:+''
      = Inr [''exon:chr1:100-200:+'', ''exon:chr1:300-400:+'', ''exon:chr1:500-600:+'']"
    by (simp add: miso_id_to_exon_ids_def miso_exon_to_gencode_exon_def miso_exon_to_coords_def)
  show ?thesis
    unfolding convert_miso_ids_to_everything_def
    by (simp add: ids add_exon_empty_db record_event_def no_genes_def empty_tables_def)
qed

section \<open>Properties of the plot-settings writer\<close>

lemma join_Cons: "ys \<noteq> [] \<Longrightarrow> join sep (x # ys) = x @ sep @ join sep ys"
  by (cases ys) simp_all

lemma join_append:
  "xs \<noteq> [] \<Longrightarrow> ys \<noteq> [] \<Longrightarrow> join sep (xs @ ys) = join sep xs @ sep @ join sep ys"
proof (induction xs)
  case Nil
  then show ?case by simp
next
  case (Cons x xs)
  show ?case
  proof (cases "xs = []")
    case True
    with Cons.prems show ?thesis by (simp add: join_Cons)
  next
    case False
    with Cons show ?thesis by (simp add: join_Cons)
  qed
qed

lemma length_settings_lines: "length (settings_lines args) = 59"
  by (simp add: settings_lines_def)

text \<open>
  The document is the lines before the one of the colours, that line between two
  newlines, and the lines after it.
\<close>

lemma document_around_colors:
  "write_sashimi_plot_settings args
     = join [CHR 0x0A] (take 38 (settings_lines args)) @ [CHR 0x0A]
       @ colors_text (ps_colors args) @ [CHR 0x0A]
       @ join [CHR 0x0A] (drop 39 (settings_lines args))"
proof -
  let ?ls = "settings_lines args"
  have len: "length ?ls = 59" by (rule length_settings_lines)
  have "38 < length ?ls" using len by simp
  then have "?ls = take 38 ?ls @ ?ls ! 38 # drop (Suc 38) ?ls"
    by (rule id_take_nth_drop)
  moreover have "Suc 38 = (39::nat)" by simp
  ultimately have split: "?ls = take 38 ?ls @ ([?ls ! 38] @ drop 39 ?ls)" by simp
  have "length (take 38 ?ls) = 38" using len by simp
  then have a: "take 38 ?ls \<noteq> []" by auto
  have "length (drop 39 ?ls) = 20" using len by simp
  then have b: "drop 39 ?ls \<noteq> []" by auto
  have c: "?ls ! 38 = colors_text (ps_colors args)" by (simp add: settings_lines_def)
  have "join [CHR 0x0A] ?ls = join [CHR 0x0A] (take 38 ?ls @ ([?ls ! 38] @ drop 39 ?ls))"
    using split by (rule arg_cong)
  also have "\<dots> = join [CHR 0x0A] (take 38 ?ls) @ [CHR 0x0A]
                    @ join [CHR 0x0A] ([?ls ! 38] @ drop 39 ?ls)"
    using a by (rule join_append) simp
  also have "join [CHR 0x0A] ([?ls ! 38] @ drop 39 ?ls)
               = ?ls ! 38 @ [CHR 0x0A] @ join [CHR 0x0A] (drop 39 ?ls)"
    using b by (simp add: join_Cons)
  finally show ?thesis unfolding write_sashimi_plot_settings_def c .
qed

text \<open>
  Claim C10, as the code has it. The line after the comment on the colours is the
  text of the colours, and the document holds it between two newlines; it is empty
  when no colours are given, and for two colours it is \<^verbatim>\<open>colors = [\<close>, the two colours
  each in double quotes with a comma, a newline and a tab between them, and \<^verbatim>\<open>]\<close>.
  The lists of strings (the colours, the sample labels, the bam files, and the miso
  files with the splice type appended to each) are rendered as an opening bracket,
  the items in double quotes joined by a comma, a newline and a tab, and a closing
  bracket. The read counts are rendered in the same brackets with the same
  separator, but as integers without quotes, and \<^verbatim>\<open>bf_thresholds\<close> as the text
  \<^verbatim>\<open>format\<close> gives for the value passed.
\<close>

theorem plot_settings_lists:
  "settings_lines args ! 37 = ''# List of colors for read denisites of each sample''
   \<and> settings_lines args ! 38 = colors_text (ps_colors args)
   \<and> colors_text None = []
   \<and> colors_text (Some [c1, c2])
       = ''colors = ['' @ [CHR 0x22] @ c1 @ [CHR 0x22] @ '','' @ [CHR 0x0A, CHR 0x09]
         @ [CHR 0x22] @ c2 @ [CHR 0x22] @ '']''
   \<and> colors_text (Some cs)
       = ''colors = ['' @ join ('','' @ [CHR 0x0A, CHR 0x09])
            (map (\<lambda>x. [CHR 0x22] @ x @ [CHR 0x22]) cs) @ '']''
   \<and> sample_labels_text (Some ls)
       = ''sample_labels = ['' @ join ('','' @ [CHR 0x0A, CHR 0x09])
            (map (\<lambda>x. [CHR 0x22] @ x @ [CHR 0x22]) ls) @ '']''
   \<and> settings_lines args ! 53 = sample_labels_text (ps_sample_labels args)
   \<and> settings_lines args ! 7
       = ''bam_files = ['' @ join ('','' @ [CHR 0x0A, CHR 0x09])
            (map (\<lambda>x. [CHR 0x22] @ x @ [CHR 0x22]) (ps_bam_files args)) @ '']''
   \<and> settings_lines args ! 8
       = ''miso_files = ['' @ join ('','' @ [CHR 0x0A, CHR 0x09])
            (map (\<lambda>x. [CHR 0x22] @ x @ ''/'' @ ps_splice_type args @ [CHR 0x22])
               (ps_miso_files args)) @ '']''
   \<and> settings_lines args ! 42
       = ''coverages = ['' @ join ('','' @ [CHR 0x0A, CHR 0x09])
            (map show_int (ps_mapped_reads args)) @ '']''
   \<and> settings_lines args ! 50 = ''bf_thresholds = '' @ ps_bf_thresholds args
   \<and> write_sashimi_plot_settings args
       = join [CHR 0x0A] (take 38 (settings_lines args)) @ [CHR 0x0A]
         @ colors_text (ps_colors args) @ [CHR 0x0A]
         @ join [CHR 0x0A] (drop 39 (settings_lines args))"
proof (intro conjI)
  show "settings_lines args ! 37 = ''# List of colors for read denisites of each sample''"
    by (simp add: settings_lines_def)
  show "settings_lines args ! 38 = colors_text (ps_colors args)"
    by (simp add: settings_lines_def)
  show "colors_text None = []"
    by (simp add: colors_text_def)
  show "colors_text (Some [c1, c2])
       = ''colors = ['' @ [CHR 0x22] @ c1 @ [CHR 0x22] @ '','' @ [CHR 0x0A, CHR 0x09]
         @ [CHR 0x22] @ c2 @ [CHR 0x22] @ '']''"
    by (simp add: colors_text_def bracketed_def)
  show "colors_text (Some cs)
       = ''colors = ['' @ join ('','' @ [CHR 0x0A, CHR 0x09])
            (map (\<lambda>x. [CHR 0x22] @ x @ [CHR 0x22]) cs) @ '']''"
    by (simp add: colors_text_def bracketed_def)
  show "sample_labels_text (Some ls)
       = ''sample_labels = ['' @ join ('','' @ [CHR 0x0A, CHR 0x09])
            (map (\<lambda>x. [CHR 0x22] @ x @ [CHR 0x22]) ls) @ '']''"
    by (simp add: sample_labels_text_def bracketed_def)
  show "settings_lines args ! 53 = sample_labels_text (ps_sample_labels args)"
    by (simp add: settings_lines_def)
  show "settings_lines args ! 7
       = ''bam_files = ['' @ join ('','' @ [CHR 0x0A, CHR 0x09])
            (map (\<lambda>x. [CHR 0x22] @ x @ [CHR 0x22]) (ps_bam_files args)) @ '']''"
    by (simp add: settings_lines_def bam_files_text_def bracketed_def)
  show "settings_lines args ! 8
       = ''miso_files = ['' @ join ('','' @ [CHR 0x0A, CHR 0x09])
            (map (\<lambda>x. [CHR 0x22] @ x @ ''/'' @ ps_splice_type args @ [CHR 0x22])
               (ps_miso_files args)) @ '']''"
    by (simp add: settings_lines_def miso_files_text_def bracketed_def)
  show "settings_lines args ! 42
       = ''coverages = ['' @ join ('','' @ [CHR 0x0A, CHR 0x09])
            (map show_int (ps_mapped_reads args)) @ '']''"
    by (simp add: settings_lines_def coverages_text_def bracketed_def)
  show "settings_lines args ! 50 = ''bf_thresholds = '' @ ps_bf_thresholds args"
    by (simp add: settings_lines_def)
  show "write_sashimi_plot_settings args
       = join [CHR 0x0A] (take 38 (settings_lines args)) @ [CHR 0x0A]
         @ colors_text (ps_colors args) @ [CHR 0x0A]
         @ join [CHR 0x0A] (drop 39 (settings_lines args))"
    by (rule document_around_colors)
qed

lemma show_nat_1000: "show_nat 1000 = ''1000''"
  by code_simp

lemma show_nat_2000: "show_nat 2000 = ''2000''"
  by code_simp

text \<open>
  Claim C10 as the specification states it fails on the read counts, a list-valued
  field: for the counts 1000 and 2000 the line of the document is
  \<^verbatim>\<open>coverages = [1000,\<close>, a newline, a tab and \<^verbatim>\<open>2000]\<close>, with no quotes, which is not
  the bracketed sequence of the quoted strings.
\<close>

theorem coverages_not_quoted:
  "settings_lines
      \<lparr>ps_bam_prefix = ''/bam'', ps_miso_prefix = ''/miso'',
       ps_bam_files = [''a.bam'', ''b.bam''], ps_miso_files = [''a'', ''b''],
       ps_mapped_reads = [1000, 2000], ps_colors = None, ps_splice_type = ''SE'',
       ps_fig_width = ''7'', ps_fig_height = ''5'', ps_intron_scale = ''1'',
       ps_exon_scale = ''1'', ps_logged = ''False'', ps_font_size = ''6'',
       ps_ymax = ''150'', ps_show_posteriors = ''True'', ps_bar_posteriors = ''True'',
       ps_number_junctions = ''True'', ps_resolution = ''0.5'', ps_posterior_bins = ''40'',
       ps_gene_posterior_ratio = ''5'', ps_bar_color = ''#4c72b0'',
       ps_bf_thresholds = ''(0, 1, 2, 5, 10, 20)'', ps_sample_labels = None,
       ps_reverse_minus = ''False''\<rparr> ! 42
     = ''coverages = [1000,'' @ [CHR 0x0A, CHR 0x09] @ ''2000]''
   \<and> ''coverages = [1000,'' @ [CHR 0x0A, CHR 0x09] @ ''2000]''
     \<noteq> ''coverages = ['' @ join ('','' @ [CHR 0x0A, CHR 0x09])
            (map (\<lambda>x. [CHR 0x22] @ x @ [CHR 0x22]) [''1000'', ''2000'']) @ '']''"
  by (simp add: settings_lines_def coverages_text_def bracketed_def show_int_def
      show_nat_1000 show_nat_2000)

end
